theory Spec2Isabelle
  imports Main
begin

section \<open>Data model\<close>

text \<open>
  The application keeps two collections, each a list of dictionaries whose keys are
  given by the schema comments of \<^verbatim>\<open>app.py\<close> (lines 114-136). Every dictionary the
  application builds itself (lines 304-315 and 342-351) carries all keys of its schema
  and the handlers keep them, so a dictionary is modelled as a record with one field per
  key: Python \<^verbatim>\<open>str\<close> is \<open>string\<close>, Python \<^verbatim>\<open>int\<close> (unbounded) is \<open>int\<close>.
  On such dictionaries the defaults of \<^verbatim>\<open>it.get("upvotes", 0)\<close> (line 257),
  \<^verbatim>\<open>setdefault\<close> (lines 271 and 406) and \<^verbatim>\<open>df.get\<close> (lines 212-219) are never
  taken, and \<^verbatim>\<open>int\<close>, \<^verbatim>\<open>str\<close> and \<^verbatim>\<open>astype(str)\<close> leave the values as they are.
  Field names carry the dictionary's name as a prefix where the bare key is reserved.
\<close>

record link =
  link_url :: string
  link_by :: string
  link_at :: string
  link_note :: string

record item =
  item_id :: string
  item_title :: string
  project_code :: string
  work_type :: string
  links :: "link list"
  tags :: "string list"
  created_by :: string
  created_at :: string
  updated_at :: string
  upvotes :: int

record post =
  post_id :: string
  post_by :: string
  post_at :: string
  post_text :: string

record thread =
  thread_id :: string
  thread_title :: string
  thread_created_by :: string
  thread_created_at :: string
  thread_tags :: "string list"
  posts :: "post list"

section \<open>Python string operations used by the handlers\<close>

text \<open>
  \<^verbatim>\<open>str.strip()\<close>, \<^verbatim>\<open>str.lower()\<close>, \<^verbatim>\<open>str.split(",")\<close> and the operator \<^verbatim>\<open>in\<close> on
  strings. A \<open>char\<close> stands for the code point of its number, so the strings here are the
  Python strings of code points below 256. White space, as \<^verbatim>\<open>str.isspace\<close> has it
  there: the space, U+0009 to U+000D, U+001C to U+001F, U+0085 and U+00A0. Upper case
  letters, as \<^verbatim>\<open>str.lower\<close> maps them there: A to Z, and U+00C0 to U+00DE without the
  multiplication sign U+00D7; each goes to the code point 32 above it.
\<close>

definition py_isspace :: "char \<Rightarrow> bool" where
  "py_isspace c = (c \<in> set [CHR '' '', CHR 0x09, CHR 0x0A, CHR 0x0B, CHR 0x0C, CHR 0x0D,
                              CHR 0x1C, CHR 0x1D, CHR 0x1E, CHR 0x1F, CHR 0x85, CHR 0xA0])"

definition strip :: "string \<Rightarrow> string" where
  "strip s = rev (dropWhile py_isspace (rev (dropWhile py_isspace s)))"

definition is_upper :: "nat \<Rightarrow> bool" where
  "is_upper n = ((65 \<le> n \<and> n \<le> 90) \<or> (192 \<le> n \<and> n \<le> 222 \<and> n \<noteq> 215))"

definition lower_char :: "char \<Rightarrow> char" where
  "lower_char c =
     (let n = (of_char c :: nat) in if is_upper n then char_of (n + 32) else c)"

definition lower :: "string \<Rightarrow> string" where
  "lower s = map lower_char s"

fun split_on :: "char \<Rightarrow> string \<Rightarrow> string list" where
  "split_on sep [] = [[]]"
| "split_on sep (c # cs) =
     (if c = sep then [] # split_on sep cs
      else (case split_on sep cs of [] \<Rightarrow> [[c]] | w # ws \<Rightarrow> (c # w) # ws))"

fun starts_with :: "string \<Rightarrow> string \<Rightarrow> bool" where
  "starts_with [] s = True"
| "starts_with (p # ps) [] = False"
| "starts_with (p # ps) (c # cs) = (p = c \<and> starts_with ps cs)"

text \<open>\<^verbatim>\<open>sub in s\<close>: \<open>sub\<close> occurs in \<open>s\<close> as a contiguous block.\<close>

fun str_in :: "string \<Rightarrow> string \<Rightarrow> bool" where
  "str_in sub [] = (sub = [])"
| "str_in sub (c # cs) = (starts_with sub (c # cs) \<or> str_in sub cs)"

section \<open>The local file system\<close>

text \<open>
  The local backend works on files named by plain relative paths such as
  \<^verbatim>\<open>data/items.json\<close>. The state of the disk is the set of directories and the text
  of every file. \<^verbatim>\<open>os.path.dirname\<close>, \<^verbatim>\<open>os.path.exists\<close>,
  \<^verbatim>\<open>os.makedirs(d, exist_ok=True)\<close> and \<^verbatim>\<open>open(path, "w")\<close> raise where Python
  raises: an empty directory name, a directory above \<open>d\<close> that is a file, \<open>d\<close> itself a
  file, a directory opened as a file.
\<close>

type_synonym path = string

record fs =
  dirs :: "path set"
  files :: "path \<rightharpoonup> string"

datatype error = FileNotFoundError | FileExistsError | NotADirectoryError | IsADirectoryError

definition ITEMS_PATH :: path where
  "ITEMS_PATH = ''data/items.json''"

definition THREADS_PATH :: path where
  "THREADS_PATH = ''data/threads.json''"

definition USERS_PATH :: path where
  "USERS_PATH = ''data/users.json''"

definition is_sep :: "char \<Rightarrow> bool" where
  "is_sep c = (c = CHR ''/'')"

definition dirname :: "path \<Rightarrow> path" where
  "dirname p =
     (let head = rev (dropWhile (\<lambda>c. \<not> is_sep c) (rev p))
      in if head \<noteq> [] \<and> \<not> list_all is_sep head
         then rev (dropWhile is_sep (rev head)) else head)"

text \<open>The directory \<open>d\<close> and the directories above it, outermost first.\<close>

fun dir_chain :: "path \<Rightarrow> path \<Rightarrow> path list" where
  "dir_chain pre [] = (if pre = [] then [] else [pre])"
| "dir_chain pre (c # cs) =
     (if is_sep c \<and> pre \<noteq> [] then pre # dir_chain (pre @ [c]) cs
      else dir_chain (pre @ [c]) cs)"

definition path_exists :: "path \<Rightarrow> fs \<Rightarrow> bool" where
  "path_exists p s = (p \<in> dirs s \<or> files s p \<noteq> None)"

definition makedirs :: "path \<Rightarrow> fs \<Rightarrow> error + fs" where
  "makedirs d s =
     (if d = [] then Inl FileNotFoundError
      else if list_ex (\<lambda>a. files s a \<noteq> None) (butlast (dir_chain [] d))
        then Inl NotADirectoryError
      else if files s d \<noteq> None then Inl FileExistsError
      else Inr (s\<lparr>dirs := dirs s \<union> set (dir_chain [] d)\<rparr>))"

text \<open>\<^verbatim>\<open>open(path, "w")\<close>: the file is created or cut to length zero when it opens.\<close>

definition open_w :: "path \<Rightarrow> fs \<Rightarrow> error + fs" where
  "open_w p s =
     (if p \<in> dirs s then Inl IsADirectoryError
      else if dirname p \<noteq> [] \<and> dirname p \<notin> dirs s then Inl FileNotFoundError
      else Inr (s\<lparr>files := (files s)(p \<mapsto> [])\<rparr>))"

definition write_text :: "path \<Rightarrow> string \<Rightarrow> fs \<Rightarrow> fs" where
  "write_text p t s = s\<lparr>files := (files s)(p \<mapsto> t)\<rparr>"

section \<open>Storage backend (local files)\<close>

text \<open>
  \<^verbatim>\<open>json.dump\<close> and \<^verbatim>\<open>json.load\<close> belong to the Python library, not to the
  application: they are parameters of the model. \<open>dump_compact\<close> is
  \<^verbatim>\<open>json.dump(default, f)\<close> of line 79, \<open>dump_indent\<close> is
  \<^verbatim>\<open>json.dump(data, f, ensure_ascii=False, indent=2)\<close> of line 91, and \<open>load\<close> is
  \<^verbatim>\<open>json.load\<close> of line 82, \<open>None\<close> when it raises.
\<close>

record 'd json_lib =
  dump_compact :: "'d \<Rightarrow> string"
  dump_indent :: "'d \<Rightarrow> string"
  load :: "string \<Rightarrow> 'd option"

text \<open>
  What the environment does to one call of \<^verbatim>\<open>_local_write_json\<close>: nothing, or an
  exception of the operating system in \<^verbatim>\<open>os.makedirs\<close> (line 89), in \<^verbatim>\<open>open\<close>
  (line 90), or while \<^verbatim>\<open>json.dump\<close> writes (line 91), after \<open>k\<close> characters of
  the text have reached the file. Reads meet no fault of this kind: what a read does is
  fixed by the state of the disk.
\<close>

datatype fault = NoFault | MakedirsFails | OpenFails | DumpFails nat

text \<open>
  \<^verbatim>\<open>_local_read_json\<close> (lines 75-84). Lines 76-79 are outside the \<^verbatim>\<open>try\<close>: an
  exception there leaves the function (\<open>Inl\<close>). Inside the \<^verbatim>\<open>try\<close> every exception
  gives the default. The revision token of the local backend is always \<^verbatim>\<open>None\<close>.
\<close>

definition local_read_json ::
  "'d json_lib \<Rightarrow> path \<Rightarrow> 'd \<Rightarrow> fs \<Rightarrow> (error + 'd \<times> string option) \<times> fs" where
  "local_read_json lib p dflt s =
     (case (if \<not> path_exists p s
            then (case makedirs (dirname p) s of
                    Inl e \<Rightarrow> (Some e, s)
                  | Inr s1 \<Rightarrow>
                      (case open_w p s1 of
                         Inl e \<Rightarrow> (Some e, s1)
                       | Inr s2 \<Rightarrow> (None, write_text p (dump_compact lib dflt) s2)))
            else (None, s)) of
        (Some e, s') \<Rightarrow> (Inl e, s')
      | (None, s') \<Rightarrow>
          (case files s' p of
             None \<Rightarrow> (Inr (dflt, None), s')
           | Some t \<Rightarrow>
               (case load lib t of
                  None \<Rightarrow> (Inr (dflt, None), s')
                | Some v \<Rightarrow> (Inr (v, None), s'))))"

text \<open>
  \<^verbatim>\<open>_local_write_json\<close> (lines 87-97): every exception is caught and gives
  \<^verbatim>\<open>False\<close>. The disk keeps whatever the statements before the exception did to it.
  Clearing the caches (lines 92-93) touches no state of the model.
\<close>

definition local_write_json ::
  "'d json_lib \<Rightarrow> fault \<Rightarrow> path \<Rightarrow> 'd \<Rightarrow> fs \<Rightarrow> bool \<times> fs" where
  "local_write_json lib f p data s =
     (if f = MakedirsFails then (False, s)
      else (case makedirs (dirname p) s of
              Inl e \<Rightarrow> (False, s)
            | Inr s1 \<Rightarrow>
                if f = OpenFails then (False, s1)
                else (case open_w p s1 of
                        Inl e \<Rightarrow> (False, s1)
                      | Inr s2 \<Rightarrow>
                          (case f of
                             DumpFails k \<Rightarrow> (False, write_text p (take k (dump_indent lib data)) s2)
                           | _ \<Rightarrow> (True, write_text p (dump_indent lib data) s2)))))"

text \<open>
  \<^verbatim>\<open>read_store\<close> and \<^verbatim>\<open>write_store\<close> (lines 101-110) with \<^verbatim>\<open>GITHUB_ENABLED\<close>
  false, the configuration without a \<^verbatim>\<open>github\<close> secret: the revision token and the
  commit message are accepted and ignored.
\<close>

definition read_store ::
  "'d json_lib \<Rightarrow> path \<Rightarrow> 'd \<Rightarrow> fs \<Rightarrow> (error + 'd \<times> string option) \<times> fs" where
  "read_store lib p dflt s = local_read_json lib p dflt s"

definition write_store ::
  "'d json_lib \<Rightarrow> fault \<Rightarrow> path \<Rightarrow> 'd \<Rightarrow> string option \<Rightarrow> fs \<Rightarrow> bool \<times> fs" where
  "write_store lib f p data sha s = local_write_json lib f p data s"

section \<open>What one run of the script receives from outside\<close>

text \<open>
  A run of the script handles at most one click. During the run \<^verbatim>\<open>uuid.uuid4()\<close> is
  called at most twice, \<^verbatim>\<open>ts()\<close> at most three times and \<^verbatim>\<open>write_store\<close> at most
  once. \<^verbatim>\<open>ts()\<close> (line 32) reads the clock at every call, so each call has a reading of
  its own: \<open>ts_1\<close> is the first reading of the run, \<open>ts_2\<close> the second, \<open>ts_3\<close> the
  third; likewise \<open>uuid_1\<close> and \<open>uuid_2\<close>. \<open>current_user\<close> is the label returned by
  \<^verbatim>\<open>get_current_user\<close>; \<open>write_fault\<close> is what happens to the write of this run.
\<close>

record env =
  current_user :: string
  uuid_1 :: string
  uuid_2 :: string
  ts_1 :: string
  ts_2 :: string
  ts_3 :: string
  write_fault :: fault

text \<open>
  How a handler ends: \<^verbatim>\<open>st.success\<close> followed by a rerun, a validation message
  (\<^verbatim>\<open>st.error\<close> of line 302, \<^verbatim>\<open>st.warning\<close> of lines 284 and 340) with no write
  attempted, or a write that returned \<^verbatim>\<open>False\<close>.
\<close>

datatype outcome = Success | ValidationError | PersistenceError

section \<open>Directory: upvote and add link (lines 253-284)\<close>

text \<open>
  The loop of lines 255-259: the first dictionary whose \<^verbatim>\<open>id\<close> equals the id of the
  clicked row is changed, then \<^verbatim>\<open>break\<close>. The id of a row is also the key of its
  buttons (lines 253 and 267), so the rows shown have distinct ids.
\<close>

fun upvote_items :: "string \<Rightarrow> string \<Rightarrow> item list \<Rightarrow> item list" where
  "upvote_items rid now [] = []"
| "upvote_items rid now (it # its) =
     (if item_id it = rid then it\<lparr>upvotes := upvotes it + 1, updated_at := now\<rparr> # its
      else it # upvote_items rid now its)"

definition upvote_click ::
  "item list json_lib \<Rightarrow> env \<Rightarrow> string \<Rightarrow> item list \<Rightarrow> string option \<Rightarrow> fs
     \<Rightarrow> outcome \<times> item list \<times> fs" where
  "upvote_click lib e rid items items_sha s =
     (let items' = upvote_items rid (ts_1 e) items;
          (ok, s') = write_store lib (write_fault e) ITEMS_PATH items' items_sha s
      in (if ok then Success else PersistenceError, items', s'))"

text \<open>The loop of lines 269-278.\<close>

fun add_link_items :: "string \<Rightarrow> link \<Rightarrow> string \<Rightarrow> item list \<Rightarrow> item list" where
  "add_link_items rid lk now [] = []"
| "add_link_items rid lk now (it # its) =
     (if item_id it = rid then it\<lparr>links := links it @ [lk], updated_at := now\<rparr> # its
      else it # add_link_items rid lk now its)"

definition save_link_click ::
  "item list json_lib \<Rightarrow> env \<Rightarrow> string \<Rightarrow> string \<Rightarrow> string \<Rightarrow> item list \<Rightarrow> string option \<Rightarrow> fs
     \<Rightarrow> outcome \<times> item list \<times> fs" where
  "save_link_click lib e rid new_url note items items_sha s =
     (if new_url \<noteq> [] then
        (let lk = \<lparr>link_url = strip new_url, link_by = current_user e, link_at = ts_1 e,
                   link_note = (if note \<noteq> [] then strip note else [])\<rparr>;
             items' = add_link_items rid lk (ts_2 e) items;
             (ok, s') = write_store lib (write_fault e) ITEMS_PATH items' items_sha s
         in (if ok then Success else PersistenceError, items', s'))
      else (ValidationError, items, s))"

section \<open>New item (lines 289-327)\<close>

record item_form =
  f_title :: string
  f_project_code :: string
  f_work_type :: string
  f_tags_raw :: string
  f_first_link :: string
  f_note :: string

text \<open>The tag lists of lines 310 and 347.\<close>

definition parse_tags :: "string \<Rightarrow> string list" where
  "parse_tags raw =
     filter (\<lambda>t. t \<noteq> []) (map strip (if raw \<noteq> [] then split_on CHR '','' raw else []))"

text \<open>
  The dictionary of lines 304-322. Its entries are evaluated in the order written:
  \<^verbatim>\<open>created_at\<close> takes the first clock reading, \<^verbatim>\<open>updated_at\<close> the second, and
  the initial link, when there is one, the third.
\<close>

definition new_item :: "env \<Rightarrow> item_form \<Rightarrow> item" where
  "new_item e f =
     (let it = \<lparr>item_id = uuid_1 e,
                item_title = strip (f_title f),
                project_code = strip (f_project_code f),
                work_type = strip (f_work_type f),
                links = [],
                tags = parse_tags (f_tags_raw f),
                created_by = current_user e,
                created_at = ts_1 e,
                updated_at = ts_2 e,
                upvotes = 0\<rparr>
      in if f_first_link f \<noteq> [] then
           it\<lparr>links := links it @
                 [\<lparr>link_url = strip (f_first_link f), link_by = current_user e, link_at = ts_3 e,
                   link_note = (if f_note f \<noteq> [] then strip (f_note f) else [])\<rparr>]\<rparr>
         else it)"

definition create_item_submit ::
  "item list json_lib \<Rightarrow> env \<Rightarrow> item_form \<Rightarrow> item list \<Rightarrow> string option \<Rightarrow> fs
     \<Rightarrow> outcome \<times> item list \<times> fs" where
  "create_item_submit lib e f items items_sha s =
     (if f_title f = [] \<or> f_project_code f = [] \<or> f_work_type f = [] then
        (ValidationError, items, s)
      else
        (let items' = items @ [new_item e f];
             (ok, s') = write_store lib (write_fault e) ITEMS_PATH items' items_sha s
         in (if ok then Success else PersistenceError, items', s')))"

section \<open>Forum: new thread and reply (lines 338-356 and 403-416)\<close>

definition new_thread :: "env \<Rightarrow> string \<Rightarrow> string \<Rightarrow> string \<Rightarrow> thread" where
  "new_thread e t_title t_tags t_first =
     \<lparr>thread_id = uuid_1 e,
      thread_title = strip t_title,
      thread_created_by = current_user e,
      thread_created_at = ts_1 e,
      thread_tags = parse_tags t_tags,
      posts = [\<lparr>post_id = uuid_2 e, post_by = current_user e, post_at = ts_2 e,
                post_text = strip t_first\<rparr>]\<rparr>"

definition publish_thread ::
  "thread list json_lib \<Rightarrow> env \<Rightarrow> string \<Rightarrow> string \<Rightarrow> string \<Rightarrow> thread list \<Rightarrow> string option \<Rightarrow> fs
     \<Rightarrow> outcome \<times> thread list \<times> fs" where
  "publish_thread lib e t_title t_tags t_first threads threads_sha s =
     (if t_title = [] \<or> t_first = [] then (ValidationError, threads, s)
      else
        (let threads' = new_thread e t_title t_tags t_first # threads;
             (ok, s') = write_store lib (write_fault e) THREADS_PATH threads' threads_sha s
         in (if ok then Success else PersistenceError, threads', s')))"

text \<open>The loop of lines 404-412.\<close>

fun reply_threads :: "string \<Rightarrow> post \<Rightarrow> thread list \<Rightarrow> thread list" where
  "reply_threads tid p [] = []"
| "reply_threads tid p (th # ths) =
     (if thread_id th = tid then th\<lparr>posts := posts th @ [p]\<rparr> # ths
      else th # reply_threads tid p ths)"

definition send_reply ::
  "thread list json_lib \<Rightarrow> env \<Rightarrow> string \<Rightarrow> string \<Rightarrow> thread list \<Rightarrow> string option \<Rightarrow> fs
     \<Rightarrow> outcome \<times> thread list \<times> fs" where
  "send_reply lib e tid reply threads threads_sha s =
     (let p = \<lparr>post_id = uuid_1 e, post_by = current_user e, post_at = ts_1 e,
                post_text = strip reply\<rparr>;
          threads' = reply_threads tid p threads;
          (ok, s') = write_store lib (write_fault e) THREADS_PATH threads' threads_sha s
      in (if ok then Success else PersistenceError, threads', s'))"

section \<open>Directory filter (lines 204-220)\<close>

text \<open>
  \<^verbatim>\<open>Series.str.contains(pat)\<close> of pandas is called without \<^verbatim>\<open>regex=False\<close>: it
  searches \<open>pat\<close> as a regular expression (\<^verbatim>\<open>re.search\<close>). The model covers the
  patterns made of ordinary characters and of the dot, which stands for any character
  but the newline; \<open>re_plain\<close> says that a pattern has no other special character.
  With \<^verbatim>\<open>case=False\<close> (lines 217 and 219) letters match whatever their case.
\<close>

definition re_special :: "char \<Rightarrow> bool" where
  "re_special c = (c \<in> set [CHR 0x5C, CHR 0x5E, CHR 0x24, CHR 0x2A, CHR 0x2B, CHR 0x3F,
                              CHR 0x7B, CHR 0x7D, CHR 0x5B, CHR 0x5D, CHR 0x7C, CHR 0x28, CHR 0x29])"

definition re_plain :: "string \<Rightarrow> bool" where
  "re_plain pat = list_all (\<lambda>c. \<not> re_special c) pat"

fun re_match_here :: "string \<Rightarrow> string \<Rightarrow> bool" where
  "re_match_here [] s = True"
| "re_match_here (p # ps) [] = False"
| "re_match_here (p # ps) (c # cs) =
     ((if p = CHR ''.'' then c \<noteq> CHR 0x0A else p = c) \<and> re_match_here ps cs)"

fun re_search :: "string \<Rightarrow> string \<Rightarrow> bool" where
  "re_search pat [] = re_match_here pat []"
| "re_search pat (c # cs) = (re_match_here pat (c # cs) \<or> re_search pat cs)"

text \<open>The bracket of lines 210-215, for one row; \<open>q_lower\<close> is \<^verbatim>\<open>q.lower()\<close>.\<close>

definition q_mask :: "string \<Rightarrow> item \<Rightarrow> bool" where
  "q_mask q_lower it =
     (re_search q_lower (lower (item_title it))
      \<or> re_search q_lower (lower (project_code it))
      \<or> re_search q_lower (lower (work_type it))
      \<or> list_ex (\<lambda>t. str_in q_lower (lower t)) (tags it))"

definition row_mask :: "string \<Rightarrow> string \<Rightarrow> string \<Rightarrow> item \<Rightarrow> bool" where
  "row_mask q code wt it =
     ((if q \<noteq> [] then q_mask (lower q) it else True)
      \<and> (if code \<noteq> [] then re_search (lower code) (lower (project_code it)) else True)
      \<and> (if wt \<noteq> [] then re_search (lower wt) (lower (work_type it)) else True))"

text \<open>
  The rows kept by line 220, in the order of the collection (the sort of lines 222-227
  only reorders them). \<open>None\<close>: a pattern lies outside the patterns covered here.
\<close>

definition directory_filter ::
  "string \<Rightarrow> string \<Rightarrow> string \<Rightarrow> item list \<Rightarrow> item list option" where
  "directory_filter q code wt items =
     (if items = [] then Some []
      else if re_plain (lower q) \<and> re_plain code \<and> re_plain wt
      then Some (filter (row_mask q code wt) items)
      else None)"

text \<open>
  The matching rule in the words of the specification: the query is a case-insensitive
  substring of the title, of the project code, of the work type or of some tag.
\<close>

definition ci_substring :: "string \<Rightarrow> string \<Rightarrow> bool" where
  "ci_substring q s = str_in (lower q) (lower s)"

definition spec_query_match :: "string \<Rightarrow> item \<Rightarrow> bool" where
  "spec_query_match q it =
     (ci_substring q (item_title it) \<or> ci_substring q (project_code it)
      \<or> ci_substring q (work_type it) \<or> list_ex (ci_substring q) (tags it))"

section \<open>A json library for the examples\<close>

text \<open>
  The theorems below hold for any \<open>json_lib\<close>. Their examples run on this one: JSON
  values without floating-point numbers and with ASCII strings, printed as
  \<^verbatim>\<open>json.dump\<close> prints them (with \<^verbatim>\<open>indent=2\<close> and without) and read back
  by a recursive-descent parser.
\<close>

datatype json = JNull | JBool bool | JInt int | JStr string | JArr "json list" | JObj "(string \<times> json) list"

definition digit_char :: "nat \<Rightarrow> char" where
  "digit_char n = char_of (48 + n)"

fun show_nat :: "nat \<Rightarrow> string" where
  "show_nat n = (if n < 10 then [digit_char n] else show_nat (n div 10) @ [digit_char (n mod 10)])"

definition show_int :: "int \<Rightarrow> string" where
  "show_int i = (if i < 0 then CHR ''-'' # show_nat (nat (- i)) else show_nat (nat i))"

definition hex_char :: "nat \<Rightarrow> char" where
  "hex_char n = (if n < 10 then char_of (48 + n) else char_of (87 + n))"

definition esc_char :: "char \<Rightarrow> string" where
  "esc_char c =
     (if c = CHR 0x22 then [CHR 0x5C, CHR 0x22]
      else if c = CHR 0x5C then [CHR 0x5C, CHR 0x5C]
      else if c = CHR 0x0A then [CHR 0x5C, CHR ''n'']
      else if c = CHR 0x0D then [CHR 0x5C, CHR ''r'']
      else if c = CHR 0x09 then [CHR 0x5C, CHR ''t'']
      else if c = CHR 0x08 then [CHR 0x5C, CHR ''b'']
      else if c = CHR 0x0C then [CHR 0x5C, CHR ''f'']
      else if (of_char c :: nat) < 32
        then [CHR 0x5C, CHR ''u'', CHR ''0'', CHR ''0'', hex_char (of_char c div 16), hex_char (of_char c mod 16)]
      else [c])"

definition json_string :: "string \<Rightarrow> string" where
  "json_string s = CHR 0x22 # concat (map esc_char s) @ [CHR 0x22]"

fun join :: "string \<Rightarrow> string list \<Rightarrow> string" where
  "join sep [] = []"
| "join sep [x] = x"
| "join sep (x # y # ys) = x @ sep @ join sep (y # ys)"

definition pad :: "nat \<Rightarrow> string" where
  "pad n = replicate (2 * n) CHR '' ''"

fun json_indent :: "nat \<Rightarrow> json \<Rightarrow> string" where
  "json_indent n JNull = ''null''"
| "json_indent n (JBool b) = (if b then ''true'' else ''false'')"
| "json_indent n (JInt i) = show_int i"
| "json_indent n (JStr s) = json_string s"
| "json_indent n (JArr xs) =
     (if xs = [] then ''[]''
      else ''['' @ [CHR 0x0A] @ pad (Suc n)
           @ join ('','' @ [CHR 0x0A] @ pad (Suc n)) (map (json_indent (Suc n)) xs)
           @ [CHR 0x0A] @ pad n @ '']'')"
| "json_indent n (JObj kvs) =
     (if kvs = [] then ''{}''
      else ''{'' @ [CHR 0x0A] @ pad (Suc n)
           @ join ('','' @ [CHR 0x0A] @ pad (Suc n))
               (map (\<lambda>kv. json_string (fst kv) @ '': '' @ json_indent (Suc n) (snd kv)) kvs)
           @ [CHR 0x0A] @ pad n @ ''}'')"

fun json_compact :: "json \<Rightarrow> string" where
  "json_compact JNull = ''null''"
| "json_compact (JBool b) = (if b then ''true'' else ''false'')"
| "json_compact (JInt i) = show_int i"
| "json_compact (JStr s) = json_string s"
| "json_compact (JArr xs) = ''['' @ join '', '' (map json_compact xs) @ '']''"
| "json_compact (JObj kvs) =
     ''{'' @ join '', '' (map (\<lambda>kv. json_string (fst kv) @ '': '' @ json_compact (snd kv)) kvs) @ ''}''"

definition is_ws :: "char \<Rightarrow> bool" where
  "is_ws c = (c \<in> set [CHR '' '', CHR 0x09, CHR 0x0A, CHR 0x0D])"

definition skip_ws :: "string \<Rightarrow> string" where
  "skip_ws s = dropWhile is_ws s"

definition digit_val :: "char \<Rightarrow> nat option" where
  "digit_val c = (let n = (of_char c :: nat) in if 48 \<le> n \<and> n \<le> 57 then Some (n - 48) else None)"

definition hex_val :: "char \<Rightarrow> nat option" where
  "hex_val c =
     (let n = (of_char c :: nat)
      in if 48 \<le> n \<and> n \<le> 57 then Some (n - 48)
         else if 97 \<le> n \<and> n \<le> 102 then Some (n - 87)
         else if 65 \<le> n \<and> n \<le> 70 then Some (n - 55)
         else None)"

fun read_digits :: "nat \<Rightarrow> string \<Rightarrow> nat \<times> string" where
  "read_digits acc [] = (acc, [])"
| "read_digits acc (c # cs) =
     (case digit_val c of Some d \<Rightarrow> read_digits (10 * acc + d) cs | None \<Rightarrow> (acc, c # cs))"

definition is_float_tail :: "string \<Rightarrow> bool" where
  "is_float_tail r = (case r of [] \<Rightarrow> False | c # cs \<Rightarrow> c \<in> set ''.eE'')"

definition read_nat :: "string \<Rightarrow> (nat \<times> string) option" where
  "read_nat s =
     (case s of
        [] \<Rightarrow> None
      | c # cs \<Rightarrow>
          (case digit_val c of
             None \<Rightarrow> None
           | Some d \<Rightarrow>
               (let (n, r) = (if d = 0 then (0, cs) else read_digits 0 (c # cs))
                in if is_float_tail r then None else Some (n, r))))"

definition read_int :: "string \<Rightarrow> (int \<times> string) option" where
  "read_int s =
     (case s of
        [] \<Rightarrow> None
      | c # cs \<Rightarrow>
          if c = CHR ''-'' then map_option (\<lambda>(n, r). (- int n, r)) (read_nat cs)
          else map_option (\<lambda>(n, r). (int n, r)) (read_nat s))"

definition unescape :: "char \<Rightarrow> char option" where
  "unescape e =
     (if e = CHR 0x22 then Some (CHR 0x22)
      else if e = CHR 0x5C then Some (CHR 0x5C)
      else if e = CHR ''/'' then Some (CHR ''/'')
      else if e = CHR ''n'' then Some (CHR 0x0A)
      else if e = CHR ''r'' then Some (CHR 0x0D)
      else if e = CHR ''t'' then Some (CHR 0x09)
      else if e = CHR ''b'' then Some (CHR 0x08)
      else if e = CHR ''f'' then Some (CHR 0x0C)
      else None)"

definition hex4 :: "char \<Rightarrow> char \<Rightarrow> char \<Rightarrow> char \<Rightarrow> nat option" where
  "hex4 a b c d =
     (case (hex_val a, hex_val b, hex_val c, hex_val d) of
        (Some x, Some y, Some z, Some w) \<Rightarrow> Some (((x * 16 + y) * 16 + z) * 16 + w)
      | _ \<Rightarrow> None)"

fun read_chars :: "string \<Rightarrow> string \<Rightarrow> (string \<times> string) option" where
  "read_chars acc [] = None"
| "read_chars acc [c] = (if c = CHR 0x22 then Some (rev acc, []) else None)"
| "read_chars acc (c # e # r) =
     (if c = CHR 0x22 then Some (rev acc, e # r)
      else if c = CHR 0x5C then
        (if e = CHR ''u'' then
           (case r of
              a # b # c' # d # r' \<Rightarrow>
                (case hex4 a b c' d of
                   Some n \<Rightarrow> if n < 256 then read_chars (char_of n # acc) r' else None
                 | None \<Rightarrow> None)
            | _ \<Rightarrow> None)
         else (case unescape e of Some ch \<Rightarrow> read_chars (ch # acc) r | None \<Rightarrow> None))
      else if (of_char c :: nat) < 32 then None
      else read_chars (c # acc) (e # r))"

fun parse_value :: "nat \<Rightarrow> string \<Rightarrow> (json \<times> string) option"
  and parse_items :: "nat \<Rightarrow> json list \<Rightarrow> string \<Rightarrow> (json list \<times> string) option"
  and parse_members :: "nat \<Rightarrow> (string \<times> json) list \<Rightarrow> string \<Rightarrow> ((string \<times> json) list \<times> string) option"
where
  "parse_value 0 s = None"
| "parse_value (Suc n) s =
     (case skip_ws s of
        [] \<Rightarrow> None
      | c # cs \<Rightarrow>
          if starts_with ''null'' (c # cs) then Some (JNull, drop 4 (c # cs))
          else if starts_with ''true'' (c # cs) then Some (JBool True, drop 4 (c # cs))
          else if starts_with ''false'' (c # cs) then Some (JBool False, drop 5 (c # cs))
          else if c = CHR 0x22 then map_option (\<lambda>(t, r). (JStr t, r)) (read_chars [] cs)
          else if c = CHR ''['' then
            (case skip_ws cs of
               [] \<Rightarrow> None
             | d # ds \<Rightarrow>
                 if d = CHR '']'' then Some (JArr [], ds)
                 else map_option (\<lambda>(xs, r). (JArr xs, r)) (parse_items n [] cs))
          else if c = CHR ''{'' then
            (case skip_ws cs of
               [] \<Rightarrow> None
             | d # ds \<Rightarrow>
                 if d = CHR ''}'' then Some (JObj [], ds)
                 else map_option (\<lambda>(kvs, r). (JObj kvs, r)) (parse_members n [] cs))
          else map_option (\<lambda>(i, r). (JInt i, r)) (read_int (c # cs)))"
| "parse_items 0 acc s = None"
| "parse_items (Suc n) acc s =
     (case parse_value n s of
        None \<Rightarrow> None
      | Some (v, r) \<Rightarrow>
          (case skip_ws r of
             [] \<Rightarrow> None
           | d # ds \<Rightarrow>
               if d = CHR '','' then parse_items n (v # acc) ds
               else if d = CHR '']'' then Some (rev (v # acc), ds)
               else None))"
| "parse_members 0 acc s = None"
| "parse_members (Suc n) acc s =
     (case skip_ws s of
        [] \<Rightarrow> None
      | q # qs \<Rightarrow>
          if q \<noteq> CHR 0x22 then None
          else
            (case read_chars [] qs of
               None \<Rightarrow> None
             | Some (k, r) \<Rightarrow>
                 (case skip_ws r of
                    [] \<Rightarrow> None
                  | c # cs \<Rightarrow>
                      if c \<noteq> CHR '':'' then None
                      else
                        (case parse_value n cs of
                           None \<Rightarrow> None
                         | Some (v, r') \<Rightarrow>
                             (case skip_ws r' of
                                [] \<Rightarrow> None
                              | d # ds \<Rightarrow>
                                  if d = CHR '','' then parse_members n ((k, v) # acc) ds
                                  else if d = CHR ''}'' then Some (rev ((k, v) # acc), ds)
                                  else None)))))"

definition json_loads :: "string \<Rightarrow> json option" where
  "json_loads s =
     (case parse_value (Suc (length s)) s of
        None \<Rightarrow> None
      | Some (v, r) \<Rightarrow> if skip_ws r = [] then Some v else None)"

text \<open>Items and threads as JSON objects, keys in the order the application writes them.\<close>

definition link_json :: "link \<Rightarrow> json" where
  "link_json l =
     JObj [(''url'', JStr (link_url l)), (''by'', JStr (link_by l)),
           (''at'', JStr (link_at l)), (''note'', JStr (link_note l))]"

definition item_json :: "item \<Rightarrow> json" where
  "item_json it =
     JObj [(''id'', JStr (item_id it)), (''title'', JStr (item_title it)),
           (''project_code'', JStr (project_code it)), (''work_type'', JStr (work_type it)),
           (''links'', JArr (map link_json (links it))), (''tags'', JArr (map JStr (tags it))),
           (''created_by'', JStr (created_by it)), (''created_at'', JStr (created_at it)),
           (''updated_at'', JStr (updated_at it)), (''upvotes'', JInt (upvotes it))]"

definition post_json :: "post \<Rightarrow> json" where
  "post_json p =
     JObj [(''id'', JStr (post_id p)), (''by'', JStr (post_by p)),
           (''at'', JStr (post_at p)), (''text'', JStr (post_text p))]"

definition thread_json :: "thread \<Rightarrow> json" where
  "thread_json th =
     JObj [(''id'', JStr (thread_id th)), (''title'', JStr (thread_title th)),
           (''created_by'', JStr (thread_created_by th)),
           (''created_at'', JStr (thread_created_at th)),
           (''tags'', JArr (map JStr (thread_tags th))),
           (''posts'', JArr (map post_json (posts th)))]"

definition str_of :: "json \<Rightarrow> string option" where
  "str_of j = (case j of JStr s \<Rightarrow> Some s | _ \<Rightarrow> None)"

definition str_field :: "(string \<times> json) list \<Rightarrow> string \<Rightarrow> string option" where
  "str_field kvs k = Option.bind (map_of kvs k) str_of"

definition int_field :: "(string \<times> json) list \<Rightarrow> string \<Rightarrow> int option" where
  "int_field kvs k = (case map_of kvs k of Some (JInt i) \<Rightarrow> Some i | _ \<Rightarrow> None)"

definition list_field ::
  "(json \<Rightarrow> 'a option) \<Rightarrow> (string \<times> json) list \<Rightarrow> string \<Rightarrow> 'a list option" where
  "list_field dec kvs k =
     (case map_of kvs k of Some (JArr xs) \<Rightarrow> those (map dec xs) | _ \<Rightarrow> None)"

definition json_link :: "json \<Rightarrow> link option" where
  "json_link j =
     (case j of
        JObj kvs \<Rightarrow>
          Option.bind (str_field kvs ''url'') (\<lambda>u.
          Option.bind (str_field kvs ''by'') (\<lambda>b.
          Option.bind (str_field kvs ''at'') (\<lambda>a.
          Option.bind (str_field kvs ''note'') (\<lambda>n.
          Some \<lparr>link_url = u, link_by = b, link_at = a, link_note = n\<rparr>))))
      | _ \<Rightarrow> None)"

definition json_item :: "json \<Rightarrow> item option" where
  "json_item j =
     (case j of
        JObj kvs \<Rightarrow>
          Option.bind (str_field kvs ''id'') (\<lambda>i.
          Option.bind (str_field kvs ''title'') (\<lambda>t.
          Option.bind (str_field kvs ''project_code'') (\<lambda>c.
          Option.bind (str_field kvs ''work_type'') (\<lambda>w.
          Option.bind (list_field json_link kvs ''links'') (\<lambda>ls.
          Option.bind (list_field str_of kvs ''tags'') (\<lambda>ts.
          Option.bind (str_field kvs ''created_by'') (\<lambda>cb.
          Option.bind (str_field kvs ''created_at'') (\<lambda>ca.
          Option.bind (str_field kvs ''updated_at'') (\<lambda>ua.
          Option.bind (int_field kvs ''upvotes'') (\<lambda>n.
          Some \<lparr>item_id = i, item_title = t, project_code = c, work_type = w, links = ls,
                 tags = ts, created_by = cb, created_at = ca, updated_at = ua,
                 upvotes = n\<rparr>))))))))))
      | _ \<Rightarrow> None)"

definition json_post :: "json \<Rightarrow> post option" where
  "json_post j =
     (case j of
        JObj kvs \<Rightarrow>
          Option.bind (str_field kvs ''id'') (\<lambda>i.
          Option.bind (str_field kvs ''by'') (\<lambda>b.
          Option.bind (str_field kvs ''at'') (\<lambda>a.
          Option.bind (str_field kvs ''text'') (\<lambda>t.
          Some \<lparr>post_id = i, post_by = b, post_at = a, post_text = t\<rparr>))))
      | _ \<Rightarrow> None)"

definition json_thread :: "json \<Rightarrow> thread option" where
  "json_thread j =
     (case j of
        JObj kvs \<Rightarrow>
          Option.bind (str_field kvs ''id'') (\<lambda>i.
          Option.bind (str_field kvs ''title'') (\<lambda>t.
          Option.bind (str_field kvs ''created_by'') (\<lambda>cb.
          Option.bind (str_field kvs ''created_at'') (\<lambda>ca.
          Option.bind (list_field str_of kvs ''tags'') (\<lambda>ts.
          Option.bind (list_field json_post kvs ''posts'') (\<lambda>ps.
          Some \<lparr>thread_id = i, thread_title = t, thread_created_by = cb,
                 thread_created_at = ca, thread_tags = ts, posts = ps\<rparr>))))))
      | _ \<Rightarrow> None)"

definition list_lib :: "('a \<Rightarrow> json) \<Rightarrow> (json \<Rightarrow> 'a option) \<Rightarrow> 'a list json_lib" where
  "list_lib enc dec =
     \<lparr>dump_compact = (\<lambda>d. json_compact (JArr (map enc d))),
      dump_indent = (\<lambda>d. json_indent 0 (JArr (map enc d))),
      load = (\<lambda>t. case json_loads t of Some (JArr xs) \<Rightarrow> those (map dec xs) | _ \<Rightarrow> None)\<rparr>"

definition items_lib :: "item list json_lib" where
  "items_lib = list_lib item_json json_item"

definition threads_lib :: "thread list json_lib" where
  "threads_lib = list_lib thread_json json_thread"

section \<open>Notions used by the theorems, and the data of their examples\<close>

text \<open>A fault that strikes while \<^verbatim>\<open>json.dump\<close> is writing, after the file was opened.\<close>

fun during_dump :: "fault \<Rightarrow> bool" where
  "during_dump (DumpFails k) = True"
| "during_dump f = False"

definition ex_item :: item where
  "ex_item =
     \<lparr>item_id = ''i-1'', item_title = ''Planta 125'', project_code = ''FT02'',
      work_type = ''via'',
      links = [\<lparr>link_url = ''https://x.org/a'', link_by = ''ana'',
                link_at = ''2024-05-01T10:00:00.000003Z'', link_note = ''''\<rparr>],
      tags = [''carta'', ''status''], created_by = ''ana'',
      created_at = ''2024-05-01T10:00:00.000001Z'',
      updated_at = ''2024-05-01T10:00:00.000002Z'', upvotes = 3\<rparr>"

definition ex_item2 :: item where
  "ex_item2 =
     \<lparr>item_id = ''i-2'', item_title = ''Ata'', project_code = ''0738'', work_type = ''drenagem'',
      links = [], tags = [], created_by = ''bia'',
      created_at = ''2024-05-01T11:00:00.000001Z'',
      updated_at = ''2024-05-01T11:00:00.000002Z'', upvotes = 0\<rparr>"

definition ex_thread :: thread where
  "ex_thread =
     \<lparr>thread_id = ''t-1'', thread_title = ''Contrato'', thread_created_by = ''bia'',
      thread_created_at = ''2024-05-01T12:00:00.000001Z'', thread_tags = [''FT02''],
      posts = [\<lparr>post_id = ''p-1'', post_by = ''bia'', post_at = ''2024-05-01T12:00:00.000002Z'',
                post_text = ''Prazo?''\<rparr>]\<rparr>"


definition ex_env :: env where
  "ex_env =
     \<lparr>current_user = ''ana'', uuid_1 = ''u-1'', uuid_2 = ''u-2'',
      ts_1 = ''2024-05-02T09:00:00.000001Z'', ts_2 = ''2024-05-02T09:00:00.000002Z'',
      ts_3 = ''2024-05-02T09:00:00.000003Z'', write_fault = NoFault\<rparr>"

definition ex_form :: item_form where
  "ex_form =
     \<lparr>f_title = ''Carta Status'', f_project_code = ''FT02'', f_work_type = ''via'',
      f_tags_raw = ''carta, status'', f_first_link = ''https://x.org/c'', f_note = ''''\<rparr>"

text \<open>An empty disk, and a disk whose items file holds the collection \<open>[ex_item]\<close>.\<close>

definition ex_empty_disk :: fs where
  "ex_empty_disk = \<lparr>dirs = {}, files = Map.empty\<rparr>"

definition ex_disk :: fs where
  "ex_disk = \<lparr>dirs = {''data''}, files = [ITEMS_PATH \<mapsto> dump_indent items_lib [ex_item]]\<rparr>"

text \<open>
  \<open>ex_item\<close> after one upvote at the first clock reading of \<open>ex_env\<close>, and the disk
  that holds it.
\<close>

definition ex_voted :: item where
  "ex_voted = ex_item\<lparr>upvotes := 4, updated_at := ''2024-05-02T09:00:00.000001Z''\<rparr>"

definition ex_disk_voted :: fs where
  "ex_disk_voted =
     \<lparr>dirs = {''data''}, files = [ITEMS_PATH \<mapsto> dump_indent items_lib [ex_voted]]\<rparr>"

text \<open>
  A disk on which \<^verbatim>\<open>data\<close> is a regular file, so that no directory of that name can
  be made.
\<close>

definition ex_blocked_disk :: fs where
  "ex_blocked_disk = \<lparr>dirs = {}, files = [''data'' \<mapsto> ''x'']\<rparr>"

section \<open>Facts about the file system and the storage backend\<close>

lemma dir_chain_last: "pre @ cs \<noteq> [] \<Longrightarrow> pre @ cs \<in> set (dir_chain pre cs)"
proof (induction cs arbitrary: pre)
  case Nil
  then show ?case by simp
next
  case (Cons a cs)
  have "(pre @ [a]) @ cs \<in> set (dir_chain (pre @ [a]) cs)"
    by (rule Cons.IH) simp
  then show ?case by simp
qed

lemma dir_chain_self: "d \<noteq> [] \<Longrightarrow> d \<in> set (dir_chain [] d)"
  using dir_chain_last[of "[]" d] by simp

lemma makedirs_files: "makedirs d s = Inr s1 \<Longrightarrow> files s1 = files s"
  by (auto simp: makedirs_def split: if_splits)

lemma open_w_files: "open_w p s = Inr s2 \<Longrightarrow> files s2 = (files s)(p \<mapsto> [])"
  by (auto simp: open_w_def split: if_splits)

lemma dirname_items: "dirname ITEMS_PATH = ''data''"
  by (simp add: dirname_def ITEMS_PATH_def is_sep_def)

lemma dirname_threads: "dirname THREADS_PATH = ''data''"
  by (simp add: dirname_def THREADS_PATH_def is_sep_def)

lemma dir_chain_data: "dir_chain [] ''data'' = [''data'']"
  by (simp add: is_sep_def)

lemma paths_not_data:
  "ITEMS_PATH \<noteq> ''data''" "THREADS_PATH \<noteq> ''data''"
  "''data'' \<noteq> ITEMS_PATH" "''data'' \<noteq> THREADS_PATH"
  by (simp_all add: ITEMS_PATH_def THREADS_PATH_def)

lemma makedirs_data:
  "files s ''data'' = None \<Longrightarrow> makedirs ''data'' s = Inr (s\<lparr>dirs := insert ''data'' (dirs s)\<rparr>)"
  unfolding makedirs_def dir_chain_data by simp

text \<open>A write that fails before the dump leaves every file as it was.\<close>

lemma write_fails_before_dump:
  assumes "write_store lib f p d sha s = (False, s')" and "\<not> during_dump f"
  shows "files s' = files s"
  using assms
  by (cases f)
     (auto simp: write_store_def local_write_json_def split: sum.splits if_splits
           dest: makedirs_files)

text \<open>A write that fails during the dump leaves the part of the text written so far.\<close>

lemma write_fails_during_dump:
  assumes "write_store lib (DumpFails k) p d sha s = (False, s')"
  shows "files s' = files s \<or> files s' = (files s)(p \<mapsto> take k (dump_indent lib d))"
  using assms
  by (auto simp: write_store_def local_write_json_def write_text_def
           split: sum.splits if_splits dest!: makedirs_files open_w_files)

lemma write_succeeds:
  assumes "write_store lib f p d sha s = (True, s')"
  shows "files s' = (files s)(p \<mapsto> dump_indent lib d)"
  using assms
  by (cases f)
     (auto simp: write_store_def local_write_json_def write_text_def
           split: sum.splits if_splits dest!: makedirs_files open_w_files)

lemma read_existing:
  assumes "files s p = Some t"
  shows "local_read_json lib p dflt s =
           (Inr (case load lib t of None \<Rightarrow> dflt | Some v \<Rightarrow> v, None), s)"
  using assms by (simp add: local_read_json_def path_exists_def split: option.splits)

lemma read_missing:
  assumes "\<not> path_exists p s" and "dirname p \<noteq> []"
    and "\<not> list_ex (\<lambda>a. files s a \<noteq> None) (dir_chain [] (dirname p))"
    and "p \<notin> set (dir_chain [] (dirname p))"
  shows "local_read_json lib p dflt s =
     (Inr (case load lib (dump_compact lib dflt) of None \<Rightarrow> dflt | Some v \<Rightarrow> v, None),
      \<lparr>dirs = dirs s \<union> set (dir_chain [] (dirname p)),
       files = (files s)(p \<mapsto> dump_compact lib dflt)\<rparr>)"
proof -
  let ?d = "dirname p"
  have chain: "?d \<in> set (dir_chain [] ?d)"
    using assms(2) by (rule dir_chain_self)
  have no_file: "files s a = None" if "a \<in> set (dir_chain [] ?d)" for a
    using assms(3) that by (auto simp: list_ex_iff)
  have above: "\<not> list_ex (\<lambda>a. files s a \<noteq> None) (butlast (dir_chain [] ?d))"
    using no_file by (auto simp: list_ex_iff dest: in_set_butlastD)
  have mk: "makedirs ?d s = Inr (s\<lparr>dirs := dirs s \<union> set (dir_chain [] ?d)\<rparr>)"
    using assms(2) above no_file[OF chain] by (simp add: makedirs_def)
  have op: "open_w p (s\<lparr>dirs := dirs s \<union> set (dir_chain [] ?d)\<rparr>) =
              Inr \<lparr>dirs = dirs s \<union> set (dir_chain [] ?d), files = (files s)(p \<mapsto> [])\<rparr>"
    using assms(1,4) chain by (simp add: open_w_def path_exists_def)
  show ?thesis
    using assms(1) by (simp add: local_read_json_def mk op write_text_def split: option.splits)
qed

text \<open>
  The write of the examples: with the directory \<^verbatim>\<open>data\<close> in no one's way it
  succeeds and replaces the text of the file.
\<close>

lemma write_under_data:
  assumes "dirname p = ''data''" and "files s ''data'' = None" and "p \<notin> dirs s" and "p \<noteq> ''data''"
  shows "write_store lib NoFault p d sha s =
     (True, \<lparr>dirs = insert ''data'' (dirs s), files = (files s)(p \<mapsto> dump_indent lib d)\<rparr>)"
  using assms
  by (simp add: write_store_def local_write_json_def makedirs_data open_w_def write_text_def)

lemma write_items_ex_disk:
  "write_store lib NoFault ITEMS_PATH d sha ex_disk =
     (True, \<lparr>dirs = {''data''}, files = [ITEMS_PATH \<mapsto> dump_indent lib d]\<rparr>)"
  by (simp add: write_under_data dirname_items paths_not_data ex_disk_def)

lemma write_items_empty_disk:
  "write_store lib NoFault ITEMS_PATH d sha ex_empty_disk =
     (True, \<lparr>dirs = {''data''}, files = [ITEMS_PATH \<mapsto> dump_indent lib d]\<rparr>)"
  by (simp add: write_under_data dirname_items paths_not_data ex_empty_disk_def)

lemma write_threads_empty_disk:
  "write_store lib NoFault THREADS_PATH d sha ex_empty_disk =
     (True, \<lparr>dirs = {''data''}, files = [THREADS_PATH \<mapsto> dump_indent lib d]\<rparr>)"
  by (simp add: write_under_data dirname_threads paths_not_data ex_empty_disk_def)

lemma write_blocked:
  assumes "dirname p = ''data''" and "files s ''data'' \<noteq> None"
  shows "write_store lib NoFault p d sha s = (False, s)"
  using assms by (simp add: write_store_def local_write_json_def makedirs_def dir_chain_data)

lemma write_open_fails:
  assumes "dirname p = ''data''" and "files s ''data'' = None"
  shows "write_store lib OpenFails p d sha s = (False, s\<lparr>dirs := insert ''data'' (dirs s)\<rparr>)"
  using assms by (simp add: write_store_def local_write_json_def makedirs_data)

text \<open>The example library reads back the example collections.\<close>

lemma items_lib_reads_ex_item: "load items_lib (dump_indent items_lib [ex_item]) = Some [ex_item]"
  by code_simp

lemma items_lib_reads_ex_voted: "load items_lib (dump_indent items_lib [ex_voted]) = Some [ex_voted]"
  by code_simp

lemma items_lib_reads_empty: "load items_lib (dump_compact items_lib []) = Some []"
  by code_simp

lemma first_upvote_on_ex_disk:
  "upvote_click items_lib ex_env ''i-1'' [ex_item] None ex_disk = (Success, [ex_voted], ex_disk_voted)"
proof -
  have "upvote_items ''i-1'' (ts_1 ex_env) [ex_item] = [ex_voted]"
    by (simp add: ex_item_def ex_voted_def ex_env_def)
  then show ?thesis
    by (simp add: upvote_click_def write_items_ex_disk ex_disk_voted_def Let_def ex_env_def
          del: upvote_items.simps)
qed

lemma read_voted:
  "read_store items_lib ITEMS_PATH dflt ex_disk_voted = (Inr ([ex_voted], None), ex_disk_voted)"
proof -
  have "files ex_disk_voted ITEMS_PATH = Some (dump_indent items_lib [ex_voted])"
    by (simp add: ex_disk_voted_def)
  from read_existing[OF this, of items_lib dflt] show ?thesis
    by (simp add: read_store_def items_lib_reads_ex_voted)
qed

lemma create_on_empty_disk:
  "create_item_submit items_lib ex_env ex_form [] None ex_empty_disk =
     (Success, [new_item ex_env ex_form],
      \<lparr>dirs = {''data''},
       files = [ITEMS_PATH \<mapsto> dump_indent items_lib [new_item ex_env ex_form]]\<rparr>)"
proof -
  have "f_title ex_form \<noteq> [] \<and> f_project_code ex_form \<noteq> [] \<and> f_work_type ex_form \<noteq> []"
    by (simp add: ex_form_def)
  moreover have "write_fault ex_env = NoFault"
    by (simp add: ex_env_def)
  ultimately show ?thesis
    by (simp add: create_item_submit_def write_items_empty_disk Let_def)
qed

section \<open>Facts about the three loops\<close>



lemma upvote_items_hit:
  assumes "distinct (map item_id xs)" and "i < length xs" and "item_id (xs ! i) = rid"
  shows "upvote_items rid now xs ! i = (xs ! i)\<lparr>upvotes := upvotes (xs ! i) + 1, updated_at := now\<rparr>"
  using assms
proof (induction xs arbitrary: i)
  case Nil
  then show ?case by simp
next
  case (Cons x xs)
  show ?case
  proof (cases i)
    case 0
    with Cons.prems show ?thesis by simp
  next
    case (Suc j)
    with Cons.prems have "item_id x \<noteq> rid" by force
    with Cons Suc show ?thesis by simp
  qed
qed

lemma upvote_items_miss:
  assumes "j < length xs" and "item_id (xs ! j) \<noteq> rid"
  shows "upvote_items rid now xs ! j = xs ! j"
  using assms
proof (induction xs arbitrary: j)
  case Nil
  then show ?case by simp
next
  case (Cons x xs)
  then show ?case by (cases j) auto
qed









section \<open>Facts about the directory filter\<close>

lemma re_match_here_literal:
  "list_all (\<lambda>c. c \<noteq> CHR ''.'') pat \<Longrightarrow> re_match_here pat s = starts_with pat s"
  by (induction pat s rule: starts_with.induct) auto

lemma starts_with_nil: "starts_with pat [] = (pat = [])"
  by (cases pat) simp_all

lemma re_search_literal:
  "list_all (\<lambda>c. c \<noteq> CHR ''.'') pat \<Longrightarrow> re_search pat s = str_in pat s"
  by (induction s) (auto simp: re_match_here_literal starts_with_nil)

lemma lower_char_dot: "(lower_char c = CHR ''.'') = (c = CHR ''.'')"
proof
  assume l: "lower_char c = CHR ''.''"
  show "c = CHR ''.''"
  proof (cases "is_upper (of_char c)")
    case True
    then have "(of_char (lower_char c) :: nat) = (of_char c + 32) mod 256"
      by (simp add: lower_char_def Let_def)
    moreover from True have "(of_char c :: nat) + 32 < 256"
      by (auto simp: is_upper_def)
    ultimately have "(of_char (lower_char c) :: nat) = of_char c + 32"
      by simp
    with l True show ?thesis by (simp add: is_upper_def)
  next
    case False
    with l show ?thesis by (simp add: lower_char_def Let_def)
  qed
next
  assume "c = CHR ''.''"
  then show "lower_char c = CHR ''.''" by (simp add: lower_char_def is_upper_def)
qed

lemma lower_no_dot:
  "list_all (\<lambda>c. c \<noteq> CHR ''.'') q \<Longrightarrow> list_all (\<lambda>c. c \<noteq> CHR ''.'') (lower q)"
  by (induction q) (auto simp: lower_def lower_char_dot)

text \<open>
  Where the query has no character that a regular expression reads specially, the rows
  kept by the code are the rows of the rule in the words of the specification.
\<close>

lemma directory_filter_plain_query:
  assumes "items \<noteq> []" and "q \<noteq> []" and "re_plain (lower q)"
    and "list_all (\<lambda>c. c \<noteq> CHR ''.'') q"
  shows "directory_filter q [] [] items = Some (filter (spec_query_match q) items)"
proof -
  have "list_all (\<lambda>c. c \<noteq> CHR ''.'') (lower q)"
    using assms(4) by (rule lower_no_dot)
  moreover have "ci_substring q = (\<lambda>t. str_in (lower q) (lower t))"
    by (simp add: fun_eq_iff ci_substring_def)
  ultimately have "q_mask (lower q) it = spec_query_match q it" for it
    by (simp add: q_mask_def spec_query_match_def re_search_literal)
  with assms(2) have "row_mask q [] [] = spec_query_match q"
    by (auto simp: row_mask_def)
  with assms(1,3) show ?thesis
    by (simp add: directory_filter_def re_plain_def)
qed

section \<open>The claims\<close>

subsection \<open>C1: a write that fails\<close>

text \<open>
  Claim C1 says that after any mutation whose write fails the persisted collection is
  exactly what the last successful write left. The local backend opens the file for
  writing, which empties it, before \<^verbatim>\<open>json.dump\<close> runs (lines 90-91): when the
  dump fails, the old text is gone. Here the second of two upvotes fails as the dump
  starts; the file, which held the collection with the first vote, is left empty and the
  next read yields the empty default.
\<close>

theorem failed_dump_loses_collection:
  "upvote_click items_lib ex_env ''i-1'' [ex_item] None ex_disk = (Success, [ex_voted], ex_disk_voted)
   \<and> fst (read_store items_lib ITEMS_PATH [] ex_disk_voted) = Inr ([ex_voted], None)
   \<and> fst (upvote_click items_lib (ex_env\<lparr>write_fault := DumpFails 0\<rparr>) ''i-1'' [ex_voted] None
            ex_disk_voted) = PersistenceError
   \<and> files (snd (snd (upvote_click items_lib (ex_env\<lparr>write_fault := DumpFails 0\<rparr>) ''i-1''
            [ex_voted] None ex_disk_voted))) ITEMS_PATH = Some []
   \<and> files ex_disk_voted ITEMS_PATH \<noteq> Some []
   \<and> fst (read_store items_lib ITEMS_PATH []
            (snd (snd (upvote_click items_lib (ex_env\<lparr>write_fault := DumpFails 0\<rparr>) ''i-1''
               [ex_voted] None ex_disk_voted)))) = Inr ([], None)"
proof -
  let ?cut = "\<lparr>dirs = {''data''}, files = [ITEMS_PATH \<mapsto> []]\<rparr>"
  have mk: "makedirs ''data'' ex_disk_voted = Inr ex_disk_voted"
    by (simp add: makedirs_data paths_not_data ex_disk_voted_def insert_absorb)
  have op: "open_w ITEMS_PATH ex_disk_voted = Inr ?cut"
    by (simp add: open_w_def dirname_items paths_not_data ex_disk_voted_def)
  have w2: "write_store items_lib (DumpFails 0) ITEMS_PATH d None ex_disk_voted = (False, ?cut)" for d
    by (simp add: write_store_def local_write_json_def dirname_items mk op write_text_def)
  have c2: "upvote_click items_lib (ex_env\<lparr>write_fault := DumpFails 0\<rparr>) ''i-1'' [ex_voted] None
              ex_disk_voted
            = (PersistenceError, upvote_items ''i-1'' (ts_1 ex_env) [ex_voted], ?cut)"
    by (simp add: upvote_click_def w2 Let_def del: upvote_items.simps)
  have ne: "files ex_disk_voted ITEMS_PATH \<noteq> Some []"
    by (simp add: ex_disk_voted_def items_lib_def list_lib_def)
  have "json_loads [] = None"
    by (simp add: json_loads_def skip_ws_def)
  then have rd: "fst (read_store items_lib ITEMS_PATH [] ?cut) = Inr ([], None)"
    by (simp add: read_store_def read_existing items_lib_def list_lib_def)
  from first_upvote_on_ex_disk read_voted c2 ne rd show ?thesis by simp
qed

text \<open>
  Claim C1, amended: for every mutation whose write fails before \<^verbatim>\<open>json.dump\<close>
  starts writing (creating the directory or opening the file failed, through a fault of
  the system or through the state of the disk), every persisted file holds exactly what
  it held before; in particular, when the first of two upvotes of an item is written and
  the write of the second fails in this way, the store still holds the collection with
  the first increment only, and the next read returns it.
\<close>

theorem failed_write_before_dump_keeps_files:
  assumes nd: "\<not> during_dump (write_fault e)"
  shows "(fst (upvote_click lib e r its sha s) = PersistenceError
            \<longrightarrow> files (snd (snd (upvote_click lib e r its sha s))) = files s)
     \<and> (fst (save_link_click lib e r url remark its sha s) = PersistenceError
            \<longrightarrow> files (snd (snd (save_link_click lib e r url remark its sha s))) = files s)
     \<and> (fst (create_item_submit lib e f its sha s) = PersistenceError
            \<longrightarrow> files (snd (snd (create_item_submit lib e f its sha s))) = files s)
     \<and> (fst (publish_thread tlib e t_title t_tags t_first ths sha s) = PersistenceError
            \<longrightarrow> files (snd (snd (publish_thread tlib e t_title t_tags t_first ths sha s))) = files s)
     \<and> (fst (send_reply tlib e r reply ths sha s) = PersistenceError
            \<longrightarrow> files (snd (snd (send_reply tlib e r reply ths sha s))) = files s)
     \<and> (upvote_click lib ea rid before sha_a sa = (Success, voted, sb)
          \<and> read_store lib ITEMS_PATH [] sb = (Inr (loaded, sha_b), sb')
          \<and> upvote_click lib e rid loaded sha_b sb' = (PersistenceError, unsaved, sc)
          \<and> load lib (dump_indent lib voted) = Some voted
          \<and> distinct (map item_id before) \<and> i < length before \<and> item_id (before ! i) = rid
          \<longrightarrow> loaded = voted
            \<and> files sc = files sb
            \<and> read_store lib ITEMS_PATH [] sc = (Inr (voted, None), sc)
            \<and> upvotes (voted ! i) = upvotes (before ! i) + 1)"
proof -
  have keep: "files s' = files s" if "write_store l (write_fault e) p d h s = (False, s')"
    for l :: "'x json_lib" and p d h s s'
    using that nd by (rule write_fails_before_dump)
  have a: "fst (upvote_click lib e r its sha s) = PersistenceError
            \<longrightarrow> files (snd (snd (upvote_click lib e r its sha s))) = files s" for r its sha s
    by (auto simp: upvote_click_def Let_def split: prod.splits if_splits dest: keep)
  have b: "fst (save_link_click lib e r url remark its sha s) = PersistenceError
            \<longrightarrow> files (snd (snd (save_link_click lib e r url remark its sha s))) = files s"
    by (auto simp: save_link_click_def Let_def split: prod.splits if_splits dest: keep)
  have c: "fst (create_item_submit lib e f its sha s) = PersistenceError
            \<longrightarrow> files (snd (snd (create_item_submit lib e f its sha s))) = files s"
    by (auto simp: create_item_submit_def Let_def split: prod.splits if_splits dest: keep)
  have d: "fst (publish_thread tlib e t_title t_tags t_first ths sha s) = PersistenceError
            \<longrightarrow> files (snd (snd (publish_thread tlib e t_title t_tags t_first ths sha s))) = files s"
    by (auto simp: publish_thread_def Let_def split: prod.splits if_splits dest: keep)
  have g: "fst (send_reply tlib e r reply ths sha s) = PersistenceError
            \<longrightarrow> files (snd (snd (send_reply tlib e r reply ths sha s))) = files s"
    by (auto simp: send_reply_def Let_def split: prod.splits if_splits dest: keep)
  have scenario: "loaded = voted \<and> files sc = files sb
      \<and> read_store lib ITEMS_PATH [] sc = (Inr (voted, None), sc)
      \<and> upvotes (voted ! i) = upvotes (before ! i) + 1"
    if c1: "upvote_click lib ea rid before sha_a sa = (Success, voted, sb)"
      and r2: "read_store lib ITEMS_PATH [] sb = (Inr (loaded, sha_b), sb')"
      and c2: "upvote_click lib e rid loaded sha_b sb' = (PersistenceError, unsaved, sc)"
      and rt: "load lib (dump_indent lib voted) = Some voted"
      and ix: "distinct (map item_id before)" "i < length before" "item_id (before ! i) = rid"
  proof -
    have i1: "voted = upvote_items rid (ts_1 ea) before"
      using c1 by (auto simp: upvote_click_def Let_def split: prod.splits)
    have "write_store lib (write_fault ea) ITEMS_PATH voted sha_a sa = (True, sb)"
      using c1 by (auto simp: upvote_click_def Let_def split: prod.splits if_splits)
    then have f1: "files sb ITEMS_PATH = Some (dump_indent lib voted)"
      by (simp add: write_succeeds)
    have rd: "read_store lib ITEMS_PATH dflt t = (Inr (voted, None), t)"
      if "files t = files sb" for dflt t
      using read_existing[of t ITEMS_PATH "dump_indent lib voted" lib dflt] that f1 rt
      by (simp add: read_store_def)
    from rd[of sb "[]"] r2 have l: "loaded = voted" and sb': "sb' = sb"
      by simp_all
    from a[of rid loaded sha_b sb'] c2 sb' have f2: "files sc = files sb"
      by simp
    have up: "upvotes (voted ! i) = upvotes (before ! i) + 1"
      unfolding i1 using ix by (simp add: upvote_items_hit)
    from l f2 rd[OF f2] up show ?thesis
      by blast
  qed
  from a b c d g scenario show ?thesis
    by blast
qed

theorem failed_write_before_dump_keeps_files_witness:
  "fst (upvote_click items_lib ex_env ''i-1'' [ex_item] None ex_blocked_disk) = PersistenceError
   \<and> files (snd (snd (upvote_click items_lib ex_env ''i-1'' [ex_item] None ex_blocked_disk)))
       = files ex_blocked_disk
   \<and> fst (save_link_click items_lib ex_env ''i-1'' ''https://x.org/b'' [] [ex_item] None
         ex_blocked_disk) = PersistenceError
   \<and> files (snd (snd (save_link_click items_lib ex_env ''i-1'' ''https://x.org/b'' [] [ex_item] None
         ex_blocked_disk))) = files ex_blocked_disk
   \<and> fst (create_item_submit items_lib ex_env ex_form [ex_item] None ex_blocked_disk)
       = PersistenceError
   \<and> files (snd (snd (create_item_submit items_lib ex_env ex_form [ex_item] None ex_blocked_disk)))
       = files ex_blocked_disk
   \<and> fst (publish_thread threads_lib ex_env ''Obra'' [] ''Prazo?'' [ex_thread] None ex_blocked_disk)
       = PersistenceError
   \<and> files (snd (snd (publish_thread threads_lib ex_env ''Obra'' [] ''Prazo?'' [ex_thread] None
         ex_blocked_disk))) = files ex_blocked_disk
   \<and> fst (send_reply threads_lib ex_env ''i-1'' ''ok'' [ex_thread] None ex_blocked_disk)
       = PersistenceError
   \<and> files (snd (snd (send_reply threads_lib ex_env ''i-1'' ''ok'' [ex_thread] None
         ex_blocked_disk))) = files ex_blocked_disk
   \<and> upvote_click items_lib ex_env ''i-1'' [ex_item] None ex_disk = (Success, [ex_voted], ex_disk_voted)
   \<and> read_store items_lib ITEMS_PATH [] ex_disk_voted = (Inr ([ex_voted], None), ex_disk_voted)
   \<and> fst (upvote_click items_lib (ex_env\<lparr>write_fault := OpenFails\<rparr>) ''i-1'' [ex_voted] None
         ex_disk_voted) = PersistenceError
   \<and> files (snd (snd (upvote_click items_lib (ex_env\<lparr>write_fault := OpenFails\<rparr>) ''i-1''
         [ex_voted] None ex_disk_voted))) = files ex_disk_voted
   \<and> read_store items_lib ITEMS_PATH []
        (snd (snd (upvote_click items_lib (ex_env\<lparr>write_fault := OpenFails\<rparr>) ''i-1''
           [ex_voted] None ex_disk_voted)))
       = (Inr ([ex_voted], None),
          snd (snd (upvote_click items_lib (ex_env\<lparr>write_fault := OpenFails\<rparr>) ''i-1''
             [ex_voted] None ex_disk_voted)))
   \<and> upvotes ([ex_voted] ! 0) = upvotes ([ex_item] ! 0) + 1"
proof -
  let ?e = "ex_env\<lparr>write_fault := OpenFails\<rparr>"
  have blocked: "write_store l (write_fault ex_env) p d None ex_blocked_disk = (False, ex_blocked_disk)"
    if "dirname p = ''data''" for l :: "'x json_lib" and p d
    using that by (simp add: write_blocked ex_blocked_disk_def ex_env_def)
  have up: "fst (upvote_click items_lib ex_env ''i-1'' [ex_item] None ex_blocked_disk)
              = PersistenceError"
    by (simp add: upvote_click_def Let_def blocked dirname_items del: upvote_items.simps)
  have sl: "fst (save_link_click items_lib ex_env ''i-1'' ''https://x.org/b'' [] [ex_item] None
              ex_blocked_disk) = PersistenceError"
    by (simp add: save_link_click_def Let_def blocked dirname_items del: add_link_items.simps)
  have ci: "fst (create_item_submit items_lib ex_env ex_form [ex_item] None ex_blocked_disk)
              = PersistenceError"
    by (simp add: create_item_submit_def Let_def blocked dirname_items ex_form_def)
  have pt: "fst (publish_thread threads_lib ex_env ''Obra'' [] ''Prazo?'' [ex_thread] None
              ex_blocked_disk) = PersistenceError"
    by (simp add: publish_thread_def Let_def blocked dirname_threads)
  have sr: "fst (send_reply threads_lib ex_env ''i-1'' ''ok'' [ex_thread] None ex_blocked_disk)
              = PersistenceError"
    by (simp add: send_reply_def Let_def blocked dirname_threads del: reply_threads.simps)
  have nd1: "\<not> during_dump (write_fault ex_env)"
    by (simp add: ex_env_def)
  note general =
    failed_write_before_dump_keeps_files
      [OF nd1, where lib = items_lib and r = "''i-1''" and its = "[ex_item]" and sha = None
         and s = ex_blocked_disk and url = "''https://x.org/b''" and remark = "[]" and f = ex_form
         and tlib = threads_lib and t_title = "''Obra''" and t_tags = "[]"
         and t_first = "''Prazo?''" and ths = "[ex_thread]" and reply = "''ok''"]
  have w: "write_store items_lib OpenFails ITEMS_PATH d None ex_disk_voted = (False, ex_disk_voted)"
    for d
    by (simp add: write_open_fails dirname_items ex_disk_voted_def paths_not_data insert_absorb)
  have up2: "fst (upvote_click items_lib ?e ''i-1'' [ex_voted] None ex_disk_voted) = PersistenceError"
    by (simp add: upvote_click_def Let_def w del: upvote_items.simps)
  have c2: "upvote_click items_lib ?e ''i-1'' [ex_voted] None ex_disk_voted =
              (PersistenceError,
               fst (snd (upvote_click items_lib ?e ''i-1'' [ex_voted] None ex_disk_voted)),
               snd (snd (upvote_click items_lib ?e ''i-1'' [ex_voted] None ex_disk_voted)))"
    using up2 by (metis prod.collapse)
  have ix: "distinct (map item_id [ex_item])" "0 < length [ex_item]"
    "item_id ([ex_item] ! 0) = ''i-1''"
    by (simp_all add: ex_item_def)
  have nd2: "\<not> during_dump (write_fault ?e)"
    by simp
  note scenario =
    failed_write_before_dump_keeps_files
      [OF nd2, where lib = items_lib and ea = ex_env and rid = "''i-1''" and before = "[ex_item]"
         and sha_a = None and sa = ex_disk and voted = "[ex_voted]" and sb = ex_disk_voted
         and loaded = "[ex_voted]" and sha_b = None and sb' = ex_disk_voted and i = 0]
  from general up sl ci pt sr
  have part1: "files (snd (snd (upvote_click items_lib ex_env ''i-1'' [ex_item] None ex_blocked_disk)))
       = files ex_blocked_disk"
    "files (snd (snd (save_link_click items_lib ex_env ''i-1'' ''https://x.org/b'' [] [ex_item] None
         ex_blocked_disk))) = files ex_blocked_disk"
    "files (snd (snd (create_item_submit items_lib ex_env ex_form [ex_item] None ex_blocked_disk)))
       = files ex_blocked_disk"
    "files (snd (snd (publish_thread threads_lib ex_env ''Obra'' [] ''Prazo?'' [ex_thread] None
         ex_blocked_disk))) = files ex_blocked_disk"
    "files (snd (snd (send_reply threads_lib ex_env ''i-1'' ''ok'' [ex_thread] None
         ex_blocked_disk))) = files ex_blocked_disk"
    by blast+
  from scenario first_upvote_on_ex_disk read_voted c2 items_lib_reads_ex_voted ix
  have part2: "files (snd (snd (upvote_click items_lib ?e ''i-1'' [ex_voted] None ex_disk_voted)))
        = files ex_disk_voted"
    "read_store items_lib ITEMS_PATH []
        (snd (snd (upvote_click items_lib ?e ''i-1'' [ex_voted] None ex_disk_voted)))
       = (Inr ([ex_voted], None),
          snd (snd (upvote_click items_lib ?e ''i-1'' [ex_voted] None ex_disk_voted)))"
    "upvotes ([ex_voted] ! 0) = upvotes ([ex_item] ! 0) + 1"
    by blast+
  from up sl ci pt sr part1 first_upvote_on_ex_disk read_voted up2 part2
  show ?thesis by blast
qed

subsection \<open>C2: the free-text query of the directory\<close>

text \<open>
  Claim C2 says that a query keeps exactly the items of which it is a case-insensitive
  substring (title, project code, work type or a tag). Lines 211-213 hand the query to
  \<^verbatim>\<open>str.contains\<close>, which reads it as a regular expression, while line 214 tests
  the tags with \<^verbatim>\<open>in\<close>. The query \<^verbatim>\<open>1.5\<close> keeps the item titled
  \<^verbatim>\<open>Planta 125\<close>, in which \<^verbatim>\<open>1.5\<close> does not occur.
\<close>

theorem query_dot_matches_any_character:
  "directory_filter ''1.5'' [] [] [ex_item, ex_item2] = Some [ex_item]
   \<and> \<not> spec_query_match ''1.5'' ex_item"
  by (simp add: directory_filter_def row_mask_def q_mask_def spec_query_match_def
        ci_substring_def re_plain_def re_special_def lower_def lower_char_def is_upper_def
        ex_item_def ex_item2_def)

subsection \<open>C3: the item made by create item\<close>

text \<open>
  Claim C3 says that a created item has \<^verbatim>\<open>updated_at == created_at\<close>. Lines 312
  and 313 call \<^verbatim>\<open>ts()\<close> once each, so the two fields hold two readings of the
  clock; here the readings are one microsecond apart.
\<close>

theorem created_item_two_clock_readings:
  "fst (create_item_submit items_lib ex_env ex_form [] None ex_empty_disk) = Success
   \<and> created_at (last (fst (snd (create_item_submit items_lib ex_env ex_form [] None ex_empty_disk))))
       = ''2024-05-02T09:00:00.000001Z''
   \<and> updated_at (last (fst (snd (create_item_submit items_lib ex_env ex_form [] None ex_empty_disk))))
       = ''2024-05-02T09:00:00.000002Z''
   \<and> updated_at (last (fst (snd (create_item_submit items_lib ex_env ex_form [] None ex_empty_disk))))
       \<noteq> created_at (last (fst (snd (create_item_submit items_lib ex_env ex_form [] None ex_empty_disk))))"
proof -
  have "created_at (new_item ex_env ex_form) = ''2024-05-02T09:00:00.000001Z''"
    and "updated_at (new_item ex_env ex_form) = ''2024-05-02T09:00:00.000002Z''"
    by (simp_all add: new_item_def ex_env_def Let_def)
  with create_on_empty_disk show ?thesis by simp
qed

text \<open>
  Claim C3, amended: for every successful create-item operation the new item is the
  last of the written collection; its \<^verbatim>\<open>created_at\<close> is the first clock reading of
  the run and its \<^verbatim>\<open>updated_at\<close> the second, so the two are equal exactly when the
  clock gave the same reading twice; \<^verbatim>\<open>upvotes\<close> is 0, the id is the generated one
  and, when an initial URL was supplied, there is exactly one link (none otherwise).
\<close>

theorem created_item_fields:
  assumes "create_item_submit lib e f items sha s = (Success, items', s')"
  shows "items' = items @ [new_item e f]
     \<and> created_at (last items') = ts_1 e
     \<and> updated_at (last items') = ts_2 e
     \<and> (updated_at (last items') = created_at (last items')) = (ts_2 e = ts_1 e)
     \<and> upvotes (last items') = 0
     \<and> item_id (last items') = uuid_1 e
     \<and> links (last items') =
         (if f_first_link f \<noteq> []
          then [\<lparr>link_url = strip (f_first_link f), link_by = current_user e, link_at = ts_3 e,
                  link_note = (if f_note f \<noteq> [] then strip (f_note f) else [])\<rparr>]
          else [])
     \<and> files s' ITEMS_PATH = Some (dump_indent lib items')"
proof -
  from assms have valid: "\<not> (f_title f = [] \<or> f_project_code f = [] \<or> f_work_type f = [])"
    by (auto simp: create_item_submit_def)
  from assms valid have items': "items' = items @ [new_item e f]"
    by (auto simp: create_item_submit_def Let_def split: prod.splits)
  from assms valid have "write_store lib (write_fault e) ITEMS_PATH items' sha s = (True, s')"
    by (auto simp: create_item_submit_def Let_def split: prod.splits if_splits)
  then have stored: "files s' ITEMS_PATH = Some (dump_indent lib items')"
    by (simp add: write_succeeds)
  have "last items' = new_item e f"
    by (simp add: items')
  then show ?thesis
    using items' stored by (simp add: new_item_def Let_def)
qed

theorem created_item_fields_witness:
  "create_item_submit items_lib ex_env ex_form [] None ex_empty_disk =
     (Success, [new_item ex_env ex_form],
      \<lparr>dirs = {''data''}, files = [ITEMS_PATH \<mapsto> dump_indent items_lib [new_item ex_env ex_form]]\<rparr>)
   \<and> created_at (new_item ex_env ex_form) = ''2024-05-02T09:00:00.000001Z''
   \<and> updated_at (new_item ex_env ex_form) = ''2024-05-02T09:00:00.000002Z''
   \<and> upvotes (new_item ex_env ex_form) = 0
   \<and> item_id (new_item ex_env ex_form) = ''u-1''
   \<and> links (new_item ex_env ex_form) =
        [\<lparr>link_url = ''https://x.org/c'', link_by = ''ana'',
          link_at = ''2024-05-02T09:00:00.000003Z'', link_note = []\<rparr>]"
proof -
  have s: "strip ''https://x.org/c'' = ''https://x.org/c''"
    by (simp add: strip_def py_isspace_def)
  from created_item_fields[OF create_on_empty_disk] create_on_empty_disk s
  show ?thesis by (simp add: ex_env_def ex_form_def)
qed

subsection \<open>C4: validation of create item\<close>

text \<open>
  Claim C4: create item ends in a validation error exactly when the title, the project
  code or the work type is empty; then no write is attempted, whatever the disk would
  have done to one, and the collection and every file are as before.
\<close>

theorem create_item_validation:
  "(fst (create_item_submit lib e f items sha s) = ValidationError)
      = (f_title f = [] \<or> f_project_code f = [] \<or> f_work_type f = [])
   \<and> (if f_title f = [] \<or> f_project_code f = [] \<or> f_work_type f = []
       then create_item_submit lib e f items sha s = (ValidationError, items, s)
       else fst (snd (create_item_submit lib e f items sha s)) = items @ [new_item e f])"
  by (auto simp: create_item_submit_def Let_def split: prod.splits)

theorem create_item_validation_witness:
  "fst (create_item_submit items_lib ex_env (ex_form\<lparr>f_title := []\<rparr>) [ex_item] None ex_disk)
     = ValidationError
   \<and> create_item_submit items_lib ex_env (ex_form\<lparr>f_title := []\<rparr>) [ex_item] None ex_disk
     = (ValidationError, [ex_item], ex_disk)
   \<and> fst (create_item_submit items_lib ex_env ex_form [ex_item] None ex_disk) \<noteq> ValidationError
   \<and> fst (snd (create_item_submit items_lib ex_env ex_form [ex_item] None ex_disk))
     = [ex_item, new_item ex_env ex_form]"
  using create_item_validation[of items_lib ex_env "ex_form\<lparr>f_title := []\<rparr>" "[ex_item]" None ex_disk]
        create_item_validation[of items_lib ex_env ex_form "[ex_item]" None ex_disk]
  by (simp add: ex_form_def)

subsection \<open>C5: upvotes\<close>



subsection \<open>C6: a new thread\<close>

text \<open>
  Claim C6: a successful create-thread operation (its title and first message are then
  not empty) writes a collection one longer than the old one, with the new thread at
  index 0 and the old threads after it; the new thread has exactly one post, which
  holds the first message, stripped of surrounding white space.
\<close>

theorem new_thread_is_prepended:
  assumes "publish_thread lib e t_title t_tags t_first threads sha s = (Success, threads', s')"
  shows "t_title \<noteq> [] \<and> t_first \<noteq> []
     \<and> length threads' = length threads + 1
     \<and> threads' ! 0 = new_thread e t_title t_tags t_first
     \<and> tl threads' = threads
     \<and> posts (threads' ! 0)
          = [\<lparr>post_id = uuid_2 e, post_by = current_user e, post_at = ts_2 e,
               post_text = strip t_first\<rparr>]
     \<and> length (posts (threads' ! 0)) = 1
     \<and> files s' THREADS_PATH = Some (dump_indent lib threads')"
proof -
  from assms have valid: "\<not> (t_title = [] \<or> t_first = [])"
    by (auto simp: publish_thread_def)
  from assms valid have threads': "threads' = new_thread e t_title t_tags t_first # threads"
    by (auto simp: publish_thread_def Let_def split: prod.splits)
  from assms valid have "write_store lib (write_fault e) THREADS_PATH threads' sha s = (True, s')"
    by (auto simp: publish_thread_def Let_def split: prod.splits if_splits)
  then have "files s' THREADS_PATH = Some (dump_indent lib threads')"
    by (simp add: write_succeeds)
  with valid threads' show ?thesis
    by (simp add: new_thread_def)
qed

theorem new_thread_is_prepended_witness:
  "publish_thread threads_lib ex_env ''Drenagem atraso'' ''FT02, drenagem'' ''Precisamos de revisao''
      [ex_thread] None ex_empty_disk
     = (Success,
        [new_thread ex_env ''Drenagem atraso'' ''FT02, drenagem'' ''Precisamos de revisao'', ex_thread],
        \<lparr>dirs = {''data''},
         files = [THREADS_PATH \<mapsto> dump_indent threads_lib
           [new_thread ex_env ''Drenagem atraso'' ''FT02, drenagem'' ''Precisamos de revisao'',
            ex_thread]]\<rparr>)
   \<and> length [new_thread ex_env ''Drenagem atraso'' ''FT02, drenagem'' ''Precisamos de revisao'',
              ex_thread] = length [ex_thread] + 1
   \<and> posts (new_thread ex_env ''Drenagem atraso'' ''FT02, drenagem'' ''Precisamos de revisao'')
       = [\<lparr>post_id = ''u-2'', post_by = ''ana'', post_at = ''2024-05-02T09:00:00.000002Z'',
            post_text = ''Precisamos de revisao''\<rparr>]"
proof -
  have s: "strip ''Precisamos de revisao'' = ''Precisamos de revisao''"
    by (simp add: strip_def py_isspace_def)
  have r: "publish_thread threads_lib ex_env ''Drenagem atraso'' ''FT02, drenagem''
             ''Precisamos de revisao'' [ex_thread] None ex_empty_disk
     = (Success,
        [new_thread ex_env ''Drenagem atraso'' ''FT02, drenagem'' ''Precisamos de revisao'', ex_thread],
        \<lparr>dirs = {''data''},
         files = [THREADS_PATH \<mapsto> dump_indent threads_lib
           [new_thread ex_env ''Drenagem atraso'' ''FT02, drenagem'' ''Precisamos de revisao'',
            ex_thread]]\<rparr>)"
    by (simp add: publish_thread_def Let_def write_threads_empty_disk ex_env_def)
  from new_thread_is_prepended[OF r] r s show ?thesis
    by (simp add: ex_env_def)
qed

subsection \<open>C7: adding a link\<close>



subsection \<open>C8: a reply\<close>



subsection \<open>C9: write, then read\<close>

text \<open>
  Claim C9: on the local backend, when a value that the json library reads back from its
  own text is written to a document, reading the document returns that value (with the
  null revision) whatever default the reader passes, and leaves the disk as it is.
\<close>

theorem local_write_then_read:
  assumes "local_write_json lib f p d s = (True, s')"
    and "load lib (dump_indent lib d) = Some d"
  shows "local_read_json lib p dflt s' = (Inr (d, None), s')"
proof -
  from assms(1) have "write_store lib f p d None s = (True, s')"
    by (simp add: write_store_def)
  then have "files s' p = Some (dump_indent lib d)"
    by (simp add: write_succeeds)
  then have "local_read_json lib p dflt s' =
               (Inr (case load lib (dump_indent lib d) of None \<Rightarrow> dflt | Some v \<Rightarrow> v, None), s')"
    by (rule read_existing)
  with assms(2) show ?thesis by simp
qed

theorem local_write_then_read_witness:
  "local_write_json items_lib NoFault ITEMS_PATH [ex_item] ex_empty_disk = (True, ex_disk)
   \<and> load items_lib (dump_indent items_lib [ex_item]) = Some [ex_item]
   \<and> local_read_json items_lib ITEMS_PATH [] ex_disk = (Inr ([ex_item], None), ex_disk)"
proof -
  have w: "local_write_json items_lib NoFault ITEMS_PATH [ex_item] ex_empty_disk = (True, ex_disk)"
    using write_items_empty_disk[of items_lib "[ex_item]" None]
    by (simp add: write_store_def ex_disk_def)
  from local_write_then_read[OF w items_lib_reads_ex_item, of "[]"] w items_lib_reads_ex_item
  show ?thesis by simp
qed

subsection \<open>C10: reading a document that is not there\<close>

text \<open>
  Claim C10: on the local backend, reading a path that does not exist (with a directory
  name that can be created) changes the disk: the directories above the file are made
  and the file is written with the text of the default. The read returns the default
  with the null revision; afterwards the path exists, and a second read, whatever its
  default, changes nothing and returns what the file holds.
\<close>

theorem read_missing_creates_file:
  assumes "\<not> path_exists p s" and "dirname p \<noteq> []"
    and "\<not> list_ex (\<lambda>a. files s a \<noteq> None) (dir_chain [] (dirname p))"
    and "p \<notin> set (dir_chain [] (dirname p))"
    and "load lib (dump_compact lib dflt) = Some dflt"
    and "local_read_json lib p dflt s = (r, s')"
  shows "r = Inr (dflt, None)
     \<and> s' \<noteq> s
     \<and> dirs s' = dirs s \<union> set (dir_chain [] (dirname p))
     \<and> dirname p \<in> dirs s'
     \<and> files s' = (files s)(p \<mapsto> dump_compact lib dflt)
     \<and> path_exists p s'
     \<and> local_read_json lib p dflt2 s' = (Inr (dflt, None), s')"
proof -
  let ?s = "\<lparr>dirs = dirs s \<union> set (dir_chain [] (dirname p)),
             files = (files s)(p \<mapsto> dump_compact lib dflt)\<rparr>"
  from read_missing[OF assms(1-4), of lib dflt] assms(5,6)
  have r: "r = Inr (dflt, None)" and s': "s' = ?s"
    by simp_all
  have held: "files s' p = Some (dump_compact lib dflt)"
    by (simp add: s')
  from assms(1) have "files s p = None"
    by (simp add: path_exists_def)
  with held have changed: "s' \<noteq> s"
    by auto
  have again: "local_read_json lib p dflt2 s' = (Inr (dflt, None), s')"
    using read_existing[OF held, of lib dflt2] assms(5) by simp
  from r s' changed again dir_chain_self[OF assms(2)] show ?thesis
    by (simp add: path_exists_def)
qed

theorem read_missing_creates_file_witness:
  "\<not> path_exists ITEMS_PATH ex_empty_disk
   \<and> local_read_json items_lib ITEMS_PATH [] ex_empty_disk
       = (Inr ([], None), \<lparr>dirs = {''data''}, files = [ITEMS_PATH \<mapsto> ''[]'']\<rparr>)
   \<and> path_exists ITEMS_PATH \<lparr>dirs = {''data''}, files = [ITEMS_PATH \<mapsto> ''[]'']\<rparr>
   \<and> local_read_json items_lib ITEMS_PATH [ex_item] \<lparr>dirs = {''data''}, files = [ITEMS_PATH \<mapsto> ''[]'']\<rparr>
       = (Inr ([], None), \<lparr>dirs = {''data''}, files = [ITEMS_PATH \<mapsto> ''[]'']\<rparr>)"
proof -
  let ?s = "\<lparr>dirs = {''data''}, files = [ITEMS_PATH \<mapsto> ''[]'']\<rparr>"
  have missing: "\<not> path_exists ITEMS_PATH ex_empty_disk"
    by (simp add: path_exists_def ex_empty_disk_def)
  have dir: "dirname ITEMS_PATH \<noteq> []"
    by (simp add: dirname_items)
  have free: "\<not> list_ex (\<lambda>a. files ex_empty_disk a \<noteq> None) (dir_chain [] (dirname ITEMS_PATH))"
    unfolding dirname_items dir_chain_data by (simp add: ex_empty_disk_def)
  have notdir: "ITEMS_PATH \<notin> set (dir_chain [] (dirname ITEMS_PATH))"
    unfolding dirname_items dir_chain_data by (simp add: paths_not_data)
  have dumped: "dump_compact items_lib [] = ''[]''"
    by (simp add: items_lib_def list_lib_def)
  have "local_read_json items_lib ITEMS_PATH [] ex_empty_disk =
     (Inr (case load items_lib (dump_compact items_lib []) of None \<Rightarrow> [] | Some v \<Rightarrow> v, None),
      \<lparr>dirs = dirs ex_empty_disk \<union> set (dir_chain [] (dirname ITEMS_PATH)),
       files = (files ex_empty_disk)(ITEMS_PATH \<mapsto> dump_compact items_lib [])\<rparr>)"
    using missing dir free notdir by (rule read_missing)
  then have rd: "local_read_json items_lib ITEMS_PATH [] ex_empty_disk = (Inr ([], None), ?s)"
    unfolding dirname_items dir_chain_data dumped
    by (simp add: ex_empty_disk_def items_lib_reads_empty[unfolded dumped])
  have ex: "path_exists ITEMS_PATH ?s"
    by (simp add: path_exists_def)
  note inst = read_missing_creates_file[OF missing dir free notdir items_lib_reads_empty rd, of "[ex_item]"]
  from inst have "local_read_json items_lib ITEMS_PATH [ex_item] ?s = (Inr ([], None), ?s)"
    by blast
  with missing rd ex show ?thesis by blast
qed

end
